theory Spec2Isabelle
  imports Main "HOL-Library.Sublist"
begin

text \<open>
  A shallow embedding of the extraction core of the Facebook group post scraper:
  \<^verbatim>\<open>parse_facebook_datetime\<close> of \<^verbatim>\<open>extractors/utils_datetime.py\<close> (the temporal normalizer) and
  the methods of \<^verbatim>\<open>FacebookGroupParser\<close> of \<^verbatim>\<open>extractors/facebook_group_parser.py\<close> that turn
  a parsed page into post records. A call that can raise returns a sum: \<open>Inl e\<close> when it
  raises \<open>e\<close>, \<open>Inr v\<close> when it returns \<open>v\<close>. The wall clock, \<^verbatim>\<open>dateutil\<close> and the comments
  read from embedded JSON are parameters. The definitions come first, the facts about them
  after.
\<close>

section \<open>Python strings and exceptions\<close>

text \<open>
  A Python \<^verbatim>\<open>str\<close> is a \<^typ>\<open>string\<close>; every \<^typ>\<open>char\<close> stands for one code point
  in the range 0..255. The character classes below are those of CPython for that range:
  \<^verbatim>\<open>\d\<close> (the ten ASCII digits), \<^verbatim>\<open>str.isspace\<close> and \<^verbatim>\<open>\s\<close> (0x09-0x0D, 0x1C-0x20,
  0x85, 0xA0) and \<^verbatim>\<open>str.lower\<close> (A-Z and 0xC0-0xDE without 0xD7 move up by 32).
  Code points above 255 are outside the model.
\<close>

datatype py_exception = ValueError | OverflowError | OtherException

definition is_digit :: "char \<Rightarrow> bool" where
  "is_digit c = (c \<in> set ''0123456789'')"

definition is_space :: "char \<Rightarrow> bool" where
  "is_space c =
     (let n = (of_char c :: nat)
      in (9 \<le> n \<and> n \<le> 13) \<or> (28 \<le> n \<and> n \<le> 32) \<or> n = 133 \<or> n = 160)"

definition py_lower_char :: "char \<Rightarrow> char" where
  "py_lower_char c =
     (let n = (of_char c :: nat)
      in if n = 215 then c
         else if (65 \<le> n \<and> n \<le> 90) \<or> (192 \<le> n \<and> n \<le> 222) then char_of (n + 32)
         else c)"

definition py_lower :: "string \<Rightarrow> string" where
  "py_lower s = map py_lower_char s"

definition py_strip :: "string \<Rightarrow> string" where
  "py_strip s = rev (dropWhile is_space (rev (dropWhile is_space s)))"

subsection \<open>\<^verbatim>\<open>int(str)\<close>\<close>

definition digit_val :: "char \<Rightarrow> int" where
  "digit_val c = int (of_char c) - 48"

definition digits_value :: "string \<Rightarrow> int" where
  "digits_value ds = foldl (\<lambda>a c. 10 * a + digit_val c) 0 ds"

text \<open>Digits, with single underscores allowed between two digits.\<close>

fun digit_group :: "string \<Rightarrow> bool" where
  "digit_group [] = False"
| "digit_group [c] = is_digit c"
| "digit_group (c # d # rest) =
     (is_digit c \<and> (if d = CHR ''_'' then digit_group rest else digit_group (d # rest)))"

text \<open>
  \<^verbatim>\<open>sys.int_max_str_digits\<close>, 4300 by default: \<^verbatim>\<open>int\<close> of a string with more digits raises
  \<^verbatim>\<open>ValueError\<close>.
\<close>

definition int_max_str_digits :: nat where
  "int_max_str_digits = 4300"

definition split_sign :: "string \<Rightarrow> bool \<times> string" where
  "split_sign t =
     (case t of
        [] \<Rightarrow> (False, [])
      | c # b \<Rightarrow> if c = CHR ''-'' then (True, b) else if c = CHR ''+'' then (False, b)
                 else (False, t))"

definition py_int :: "string \<Rightarrow> py_exception + int" where
  "py_int s =
     (let (neg, body) = split_sign (py_strip s)
      in if \<not> digit_group body then Inl ValueError
         else let ds = filter is_digit body
              in if length ds > int_max_str_digits then Inl ValueError
                 else Inr (if neg then - digits_value ds else digits_value ds))"

section \<open>Clock, \<^verbatim>\<open>timedelta\<close> and \<^verbatim>\<open>datetime\<close>\<close>

text \<open>
  Instants are integers counting microseconds since 1970-01-01T00:00:00Z, the resolution
  of \<^verbatim>\<open>datetime\<close>. The wall clock is a parameter \<open>now_us\<close> of the normalizer, which reads
  it at most once per call. \<^verbatim>\<open>datetime\<close> covers the years 1 to 9999; \<^verbatim>\<open>timedelta\<close> covers
  magnitudes below 1000000000 days. Both raise \<^verbatim>\<open>OverflowError\<close> outside their range.

  \<open>timestamp_int\<close> is \<^verbatim>\<open>int(dt.timestamp())\<close>: the division by 10^6 is a float division
  in CPython, followed by truncation towards zero. The model divides exactly; the two
  agree whenever the magnitude is below 2^33 seconds (years 1698 to 2242), where a double
  resolves microseconds.
\<close>

definition dt_min_us :: int where
  "dt_min_us = - 62135596800000000"

definition dt_max_us :: int where
  "dt_max_us = 253402300799999999"

definition timedelta :: "int \<Rightarrow> int \<Rightarrow> py_exception + int" where
  "timedelta unit_seconds amount =
     (let days = (amount * unit_seconds) div 86400
      in if days < - 999999999 \<or> 999999999 < days then Inl OverflowError
         else Inr (amount * unit_seconds * 1000000))"

definition datetime_sub :: "int \<Rightarrow> int \<Rightarrow> py_exception + int" where
  "datetime_sub dt delta =
     (let r = dt - delta
      in if r < dt_min_us \<or> dt_max_us < r then Inl OverflowError else Inr r)"

definition timestamp_int :: "int \<Rightarrow> int" where
  "timestamp_int us = (if 0 \<le> us then us div 1000000 else - ((- us) div 1000000))"

section \<open>Temporal normalizer: \<^verbatim>\<open>parse_facebook_datetime\<close>\<close>

text \<open>
  \<^verbatim>\<open>dateutil.parser.parse\<close> is a library outside the repository and a parameter here:
  it returns a naive datetime (wall-clock fields, as microseconds from 1970-01-01T00:00:00
  with no zone), an aware one (an instant), or raises.
\<close>

datatype parsed_datetime = Naive int | Aware int

type_synonym dateutil = "string \<Rightarrow> py_exception + parsed_datetime"

text \<open>The result: \<open>Inl e\<close> when the call raises \<open>e\<close>, \<open>Inr None\<close> for Python's \<^verbatim>\<open>None\<close>.\<close>

type_synonym normalized = "py_exception + int option"

text \<open>Line 30-38: \<^verbatim>\<open>re.fullmatch(r"\d{9,12}", text)\<close>; \<open>None\<close> falls through.\<close>

definition epoch_digits_branch :: "string \<Rightarrow> normalized option" where
  "epoch_digits_branch text =
     (if list_all is_digit text \<and> 9 \<le> length text \<and> length text \<le> 12
      then (case py_int text of
              Inr ts \<Rightarrow> Some (Inr (Some (if ts > 10000000000 then ts div 1000 else ts)))
            | Inl ValueError \<Rightarrow> None
            | Inl e \<Rightarrow> Some (Inl e))
      else None)"

text \<open>
  Line 41: \<^verbatim>\<open>re.search(r"(\d+)\s*(s|sec|...|weeks)", text)\<close>. At one start position the
  greedy \<^verbatim>\<open>\d+\<close> takes the whole digit run and the greedy \<^verbatim>\<open>\s*\<close> the whole run of
  whitespace; backtracking cannot help, since a shorter digit run is followed by a digit
  and a shorter whitespace run by whitespace, and no alternative starts with either. The
  alternatives are tried in the order of the source. The search takes the leftmost start
  position that matches.
\<close>

definition rel_units :: "string list" where
  "rel_units =
     [''s'', ''sec'', ''secs'', ''second'', ''seconds'',
      ''m'', ''min'', ''mins'', ''minute'', ''minutes'',
      ''h'', ''hr'', ''hrs'', ''hour'', ''hours'',
      ''d'', ''day'', ''days'',
      ''w'', ''week'', ''weeks'']"

definition match_unit :: "string \<Rightarrow> string option" where
  "match_unit s = find (\<lambda>u. prefix u s) rel_units"

definition rel_match_at :: "string \<Rightarrow> (string \<times> string) option" where
  "rel_match_at s =
     (let ds = takeWhile is_digit s;
          r = dropWhile is_space (dropWhile is_digit s)
      in if ds = [] then None else map_option (\<lambda>u. (ds, u)) (match_unit r))"

fun rel_search :: "string \<Rightarrow> (string \<times> string) option" where
  "rel_search [] = rel_match_at []"
| "rel_search (c # cs) =
     (case rel_match_at (c # cs) of Some m \<Rightarrow> Some m | None \<Rightarrow> rel_search cs)"

text \<open>Line 46-56: the unit's first letter selects the length of one unit, in seconds.\<close>

definition unit_seconds :: "string \<Rightarrow> int option" where
  "unit_seconds unit =
     (if prefix ''s'' unit then Some 1
      else if prefix ''m'' unit then Some 60
      else if prefix ''h'' unit then Some 3600
      else if prefix ''d'' unit then Some 86400
      else if prefix ''w'' unit then Some 604800
      else None)"

definition relative_branch :: "int \<Rightarrow> string \<Rightarrow> normalized option" where
  "relative_branch now_us text =
     (case rel_search text of
        None \<Rightarrow> None
      | Some (ds, unit) \<Rightarrow>
          (case py_int ds of
             Inl e \<Rightarrow> Some (Inl e)
           | Inr amount \<Rightarrow>
               (case unit_seconds unit of
                  None \<Rightarrow> None
                | Some secs \<Rightarrow>
                    (case timedelta secs amount of
                       Inl e \<Rightarrow> Some (Inl e)
                     | Inr delta \<Rightarrow>
                         (case datetime_sub now_us delta of
                            Inl e \<Rightarrow> Some (Inl e)
                          | Inr dt \<Rightarrow> Some (Inr (Some (timestamp_int dt))))))))"

text \<open>Line 61-71: only \<^verbatim>\<open>ValueError\<close> and \<^verbatim>\<open>OverflowError\<close> are caught.\<close>

definition with_utc :: "parsed_datetime \<Rightarrow> int" where
  "with_utc dt = (case dt of Naive wall \<Rightarrow> wall | Aware inst \<Rightarrow> inst)"

definition dateutil_branch :: "dateutil \<Rightarrow> string \<Rightarrow> normalized" where
  "dateutil_branch dateutil_parse raw =
     (case dateutil_parse raw of
        Inr dt \<Rightarrow> Inr (Some (timestamp_int (with_utc dt)))
      | Inl ValueError \<Rightarrow> Inr None
      | Inl OverflowError \<Rightarrow> Inr None
      | Inl e \<Rightarrow> Inl e)"

definition parse_facebook_datetime :: "int \<Rightarrow> dateutil \<Rightarrow> string option \<Rightarrow> normalized" where
  "parse_facebook_datetime now_us dateutil_parse raw_opt =
     (case raw_opt of
        None \<Rightarrow> Inr None
      | Some raw \<Rightarrow>
          if raw = [] then Inr None
          else let text = py_lower (py_strip raw)
               in if text = ''now'' then Inr (Some (timestamp_int now_us))
                  else (case epoch_digits_branch text of
                          Some r \<Rightarrow> r
                        | None \<Rightarrow>
                            (case relative_branch now_us text of
                               Some r \<Rightarrow> r
                             | None \<Rightarrow> dateutil_branch dateutil_parse raw)))"

section \<open>More of Python's string operations\<close>

text \<open>\<^verbatim>\<open>sub in s\<close>, \<^verbatim>\<open>s.split(sep)[0]\<close>, \<^verbatim>\<open>s.split()\<close>, \<^verbatim>\<open>s.split(sep)\<close>, \<^verbatim>\<open>sep.join(xs)\<close>.\<close>

fun py_in :: "string \<Rightarrow> string \<Rightarrow> bool" where
  "py_in sub [] = (sub = [])"
| "py_in sub (c # cs) = (prefix sub (c # cs) \<or> py_in sub cs)"

fun before_first :: "string \<Rightarrow> string \<Rightarrow> string" where
  "before_first sep [] = []"
| "before_first sep (c # cs) = (if prefix sep (c # cs) then [] else c # before_first sep cs)"

fun split_ws :: "string \<Rightarrow> string \<Rightarrow> string list" where
  "split_ws cur [] = (if cur = [] then [] else [rev cur])"
| "split_ws cur (c # cs) =
     (if is_space c then (if cur = [] then split_ws [] cs else rev cur # split_ws [] cs)
      else split_ws (c # cur) cs)"

definition py_split :: "string \<Rightarrow> string list" where
  "py_split s = split_ws [] s"

text \<open>
  Splitting at a non-empty separator, scanning from the left; \<open>skip\<close> counts the characters
  of a separator just found that are still to be passed over.
\<close>

fun split_on_aux :: "string \<Rightarrow> nat \<Rightarrow> string \<Rightarrow> string \<Rightarrow> string list" where
  "split_on_aux sep skip cur [] = [rev cur]"
| "split_on_aux sep skip cur (c # cs) =
     (if 0 < skip then split_on_aux sep (skip - 1) cur cs
      else if prefix sep (c # cs) then rev cur # split_on_aux sep (length sep - 1) [] cs
      else split_on_aux sep 0 (c # cur) cs)"

definition py_split_on :: "string \<Rightarrow> string \<Rightarrow> string list" where
  "py_split_on sep s = split_on_aux sep 0 [] s"

fun py_join :: "string \<Rightarrow> string list \<Rightarrow> string" where
  "py_join sep [] = []"
| "py_join sep [x] = x"
| "py_join sep (x # y # ys) = x @ sep @ py_join sep (y # ys)"

definition py_lstrip_chars :: "string \<Rightarrow> string \<Rightarrow> string" where
  "py_lstrip_chars chars s = dropWhile (\<lambda>c. c \<in> set chars) s"

definition py_rstrip_chars :: "string \<Rightarrow> string \<Rightarrow> string" where
  "py_rstrip_chars chars s = rev (dropWhile (\<lambda>c. c \<in> set chars) (rev s))"

section \<open>\<^verbatim>\<open>float\<close>\<close>

text \<open>
  A Python float is an IEEE 754 double: \<open>Finite m e\<close> is the number \<open>m * 2 ^ e\<close>.
  \<open>round_double num den\<close> rounds the positive fraction \<open>num / den\<close> to the nearest double,
  ties to even: 53 bits of mantissa, the least exponent -1074 (subnormal numbers), and
  \<open>None\<close> when the rounded value is 2^1024 or more, which is infinity.
\<close>

datatype py_float = Finite int int | Infinite bool | NaN

fun bitlen :: "nat \<Rightarrow> nat" where
  "bitlen n = (if n = 0 then 0 else Suc (bitlen (n div 2)))"

declare bitlen.simps [simp del]

definition floor_log2 :: "nat \<Rightarrow> nat \<Rightarrow> int" where
  "floor_log2 num den =
     (let k = int (bitlen num) - int (bitlen den)
      in if (if 0 \<le> k then den * 2 ^ nat k \<le> num else den \<le> num * 2 ^ nat (- k))
         then k else k - 1)"

definition round_half_even :: "nat \<Rightarrow> nat \<Rightarrow> nat" where
  "round_half_even a b =
     (let q = a div b; r = a mod b
      in if 2 * r < b then q else if b < 2 * r then q + 1
         else if even q then q else q + 1)"

definition round_double :: "nat \<Rightarrow> nat \<Rightarrow> (nat \<times> int) option" where
  "round_double num den =
     (if num = 0 then Some (0, 0)
      else let s = max (floor_log2 num den - 52) (- 1074);
               m = (if 0 \<le> s then round_half_even num (den * 2 ^ nat s)
                    else round_half_even (num * 2 ^ nat (- s)) den)
           in if 971 < s \<or> (s = 971 \<and> m = 2 ^ 53) then None else Some (m, s))"

text \<open>
  \<^verbatim>\<open>float(str)\<close>: an optional sign, then \<^verbatim>\<open>inf\<close>, \<^verbatim>\<open>infinity\<close>, \<^verbatim>\<open>nan\<close> (in any case) or a
  decimal number: digits, an optional point, an optional exponent, with single underscores
  between digits. A value too large for a double is infinity, not an error.
\<close>

definition split_at :: "char \<Rightarrow> string \<Rightarrow> string \<times> string option" where
  "split_at c s =
     (takeWhile (\<lambda>x. x \<noteq> c) s,
      case dropWhile (\<lambda>x. x \<noteq> c) s of [] \<Rightarrow> None | x # r \<Rightarrow> Some r)"

definition mantissa_ok :: "string \<Rightarrow> string option \<Rightarrow> bool" where
  "mantissa_ok ip fp =
     (case fp of
        None \<Rightarrow> digit_group ip
      | Some f \<Rightarrow>
          (if ip = [] then digit_group f
           else digit_group ip \<and> (if f = [] then True else digit_group f)))"

definition exponent_ok :: "string option \<Rightarrow> bool" where
  "exponent_ok ex = (case ex of None \<Rightarrow> True | Some x \<Rightarrow> digit_group (snd (split_sign x)))"

definition exponent_value :: "string option \<Rightarrow> int" where
  "exponent_value ex =
     (case ex of
        None \<Rightarrow> 0
      | Some x \<Rightarrow>
          (let (neg, b) = split_sign x; v = digits_value (filter is_digit b)
           in if neg then - v else v))"

definition parse_decimal :: "string \<Rightarrow> (nat \<times> int) option" where
  "parse_decimal s =
     (let (m, ex) = split_at (CHR ''e'') s;
          (ip, fp) = split_at (CHR ''.'') m
      in if exponent_ok ex \<and> mantissa_ok ip fp
         then (let fd = (case fp of None \<Rightarrow> [] | Some f \<Rightarrow> filter is_digit f)
               in Some (nat (digits_value (filter is_digit ip @ fd)),
                        exponent_value ex - int (length fd)))
         else None)"

definition decimal_to_double :: "nat \<Rightarrow> int \<Rightarrow> (nat \<times> int) option" where
  "decimal_to_double mant e10 =
     (if 0 \<le> e10 then round_double (mant * 10 ^ nat e10) 1
      else round_double mant (10 ^ nat (- e10)))"

definition py_float :: "string \<Rightarrow> py_exception + py_float" where
  "py_float s =
     (let (neg, b) = split_sign (py_strip s); body = py_lower b
      in if body = ''inf'' \<or> body = ''infinity'' then Inr (Infinite neg)
         else if body = ''nan'' then Inr NaN
         else (case parse_decimal body of
                 None \<Rightarrow> Inl ValueError
               | Some (mant, e10) \<Rightarrow>
                   (case decimal_to_double mant e10 of
                      None \<Rightarrow> Inr (Infinite neg)
                    | Some (m, e) \<Rightarrow> Inr (Finite (if neg then - int m else int m) e))))"

text \<open>\<^verbatim>\<open>x * k\<close> for a float \<open>x\<close> and a positive integer \<open>k\<close> that a double holds exactly.\<close>

definition float_mul_int :: "py_float \<Rightarrow> nat \<Rightarrow> py_float" where
  "float_mul_int x k =
     (case x of
        NaN \<Rightarrow> NaN
      | Infinite neg \<Rightarrow> Infinite neg
      | Finite m e \<Rightarrow>
          (let a = nat \<bar>m\<bar> * k
           in case (if 0 \<le> e then round_double (a * 2 ^ nat e) 1
                    else round_double a (2 ^ nat (- e))) of
                None \<Rightarrow> Infinite (m < 0)
              | Some (m', e') \<Rightarrow> Finite (if m < 0 then - int m' else int m') e'))"

text \<open>\<^verbatim>\<open>int(x)\<close> truncates towards zero; it raises on infinity and on nan.\<close>

definition py_int_of_float :: "py_float \<Rightarrow> py_exception + int" where
  "py_int_of_float x =
     (case x of
        NaN \<Rightarrow> Inl ValueError
      | Infinite neg \<Rightarrow> Inl OverflowError
      | Finite m e \<Rightarrow>
          Inr (if 0 \<le> e then m * 2 ^ nat e
               else if 0 \<le> m then m div 2 ^ nat (- e)
               else - ((- m) div 2 ^ nat (- e))))"

section \<open>The parsed document\<close>

text \<open>
  The tree that \<^verbatim>\<open>BeautifulSoup(html, "html.parser")\<close> hands to the extractor: an element
  has a tag name, its attributes and its children; \<open>Text\<close> is a string of the document
  that \<^verbatim>\<open>get_text\<close> sees. Building the tree from the HTML text is the library's work and is
  not modelled.
\<close>

datatype node = Element string "(string \<times> string) list" "node list" | Text string

fun descendants :: "node \<Rightarrow> node list" where
  "descendants (Element t a cs) = concat (map (\<lambda>c. c # descendants c) cs)"
| "descendants (Text s) = []"

definition is_tag :: "string list \<Rightarrow> node \<Rightarrow> bool" where
  "is_tag names n = (case n of Element t a cs \<Rightarrow> t \<in> set names | Text s \<Rightarrow> False)"

definition get_attr :: "node \<Rightarrow> string \<Rightarrow> string option" where
  "get_attr n k = (case n of Element t a cs \<Rightarrow> map_of a k | Text s \<Rightarrow> None)"

definition has_attr :: "node \<Rightarrow> string \<Rightarrow> bool" where
  "has_attr n k = (case get_attr n k of None \<Rightarrow> False | Some v \<Rightarrow> True)"

text \<open>\<^verbatim>\<open>find_all(names)\<close>: the matching descendants, in document order.\<close>

definition find_all :: "string list \<Rightarrow> node \<Rightarrow> node list" where
  "find_all names n = filter (is_tag names) (descendants n)"

text \<open>\<^verbatim>\<open>find_all("a", href=True)\<close> and the value of \<^verbatim>\<open>a["href"]\<close> for such an anchor.\<close>

definition find_all_href :: "node \<Rightarrow> node list" where
  "find_all_href n = filter (\<lambda>a. has_attr a ''href'') (find_all [''a''] n)"

definition href :: "node \<Rightarrow> string" where
  "href a = (case get_attr a ''href'' of None \<Rightarrow> [] | Some h \<Rightarrow> h)"

definition strings :: "node \<Rightarrow> string list" where
  "strings n = concat (map (\<lambda>x. case x of Text s \<Rightarrow> [s] | Element t a cs \<Rightarrow> []) (descendants n))"

text \<open>\<^verbatim>\<open>get_text(sep, strip=True)\<close>, \<^verbatim>\<open>.text\<close> and \<^verbatim>\<open>.string\<close>.\<close>

definition get_text :: "string \<Rightarrow> node \<Rightarrow> string" where
  "get_text sep n = py_join sep (filter (\<lambda>s. s \<noteq> []) (map py_strip (strings n)))"

definition node_text :: "node \<Rightarrow> string" where
  "node_text n = concat (strings n)"

fun node_string :: "node \<Rightarrow> string option" where
  "node_string (Text s) = Some s"
| "node_string (Element t a []) = None"
| "node_string (Element t a [c]) = node_string c"
| "node_string (Element t a (c # c' # cs)) = None"

section \<open>Post extractor\<close>

subsection \<open>Permalink, author and text\<close>

definition normalize_url :: "string \<Rightarrow> string" where
  "normalize_url h =
     (if prefix ''http://'' h \<or> prefix ''https://'' h then h
      else if prefix ''/'' h then ''https://www.facebook.com'' @ h
      else ''https://www.facebook.com/'' @ py_lstrip_chars ''./'' h)"

definition permalink_anchor :: "node \<Rightarrow> bool" where
  "permalink_anchor a =
     (case node_string a of
        None \<Rightarrow> False
      | Some s \<Rightarrow> (if s = [] then False else if py_in ''Comment'' s then False else True))"

definition extract_post_url :: "node \<Rightarrow> string \<Rightarrow> string" where
  "extract_post_url d group_url =
     (let anchor = find permalink_anchor (find_all_href d);
          fallback =
            (case find (\<lambda>a. py_in ''/posts/'' (href a) \<or> py_in ''/permalink/'' (href a))
                    (find_all_href d) of
               Some a \<Rightarrow> normalize_url (href a)
             | None \<Rightarrow> group_url)
      in case anchor of
           None \<Rightarrow> fallback
         | Some a \<Rightarrow> if py_in ''permalink'' (href a) then normalize_url (href a) else fallback)"

record user =
  user_id :: string
  user_name :: string
  user_url :: string

definition author_anchor :: "node \<Rightarrow> bool" where
  "author_anchor a =
     ((get_attr a ''role'' = Some ''link'' \<or> has_attr a ''tabindex'')
      \<and> py_strip (node_text a) \<noteq> [])"

definition derive_user_id :: "string \<Rightarrow> string" where
  "derive_user_id profile_url =
     (if py_in ''facebook.com'' profile_url
      then (if py_in ''profile.php?id='' profile_url
            then hd (py_split_on ''&'' (last (py_split_on ''profile.php?id='' profile_url)))
            else last (py_split_on ''/'' (py_rstrip_chars ''/'' profile_url)))
      else [])"

definition extract_user :: "node \<Rightarrow> user" where
  "extract_user d =
     (let (name, profile_url) =
            (case find author_anchor (find_all_href d) of
               None \<Rightarrow> ([], [])
             | Some a \<Rightarrow> (py_strip (node_text a), normalize_url (href a)))
      in \<lparr>user_id = derive_user_id profile_url, user_name = name, user_url = profile_url\<rparr>)"

definition auto_dir_block :: "node \<Rightarrow> bool" where
  "auto_dir_block n = (is_tag [''div'', ''span''] n \<and> get_attr n ''dir'' = Some ''auto'')"

definition extract_post_text :: "node \<Rightarrow> string" where
  "extract_post_text d =
     (let candidates = filter auto_dir_block (descendants d);
          joined = py_join '' '' (filter (\<lambda>t. t \<noteq> []) (map (get_text '' '') candidates))
      in if candidates \<noteq> [] \<and> joined \<noteq> [] then joined else get_text '' '' d)"

subsection \<open>Attachments\<close>

text \<open>
  An attachment is a dict with the keys \<^verbatim>\<open>type\<close>, \<^verbatim>\<open>url\<close> and \<^verbatim>\<open>alt\<close> (an image) or
  \<^verbatim>\<open>text\<close> (a link).
\<close>

datatype attachment = ImageAtt string string | LinkAtt string string

fun att_type :: "attachment \<Rightarrow> string" where
  "att_type (ImageAtt u alt) = ''image''"
| "att_type (LinkAtt u t) = ''link''"

fun att_url :: "attachment \<Rightarrow> string" where
  "att_url (ImageAtt u alt) = u"
| "att_url (LinkAtt u t) = u"

definition att_key :: "attachment \<Rightarrow> string \<times> string" where
  "att_key att = (att_type att, att_url att)"

text \<open>Line 277-288.\<close>

definition image_of :: "node \<Rightarrow> attachment list" where
  "image_of img =
     (case get_attr img ''src'' of
        None \<Rightarrow> []
      | Some src \<Rightarrow>
          if src = [] then []
          else [ImageAtt src (case get_attr img ''alt'' of None \<Rightarrow> [] | Some alt \<Rightarrow> alt)])"

definition image_attachments :: "node \<Rightarrow> attachment list" where
  "image_attachments d = concat (map image_of (find_all [''img''] d))"

text \<open>Line 291-307.\<close>

definition link_of :: "node \<Rightarrow> attachment list" where
  "link_of a =
     (let h = href a; t = get_text [] a
      in if py_in ''facebook.com'' h \<and> \<not> py_in ''groups'' h then []
         else if py_in ''comment'' (py_lower h) then []
         else if h = [] then []
         else [LinkAtt (normalize_url h) t])"

definition link_attachments :: "node \<Rightarrow> attachment list" where
  "link_attachments d = concat (map link_of (find_all_href d))"

text \<open>Line 309-319: the loop over \<^verbatim>\<open>attachments\<close> with the set \<^verbatim>\<open>seen\<close>.\<close>

fun dedup_loop ::
  "(string \<times> string) set \<Rightarrow> attachment list \<Rightarrow> attachment list \<Rightarrow> attachment list" where
  "dedup_loop seen unique [] = unique"
| "dedup_loop seen unique (att # atts) =
     (if att_key att \<in> seen then dedup_loop seen unique atts
      else dedup_loop (insert (att_key att) seen) (unique @ [att]) atts)"

definition dedup :: "attachment list \<Rightarrow> attachment list" where
  "dedup atts = dedup_loop {} [] atts"

definition extract_attachments :: "node \<Rightarrow> attachment list" where
  "extract_attachments d = dedup (image_attachments d @ link_attachments d)"

subsection \<open>Engagement counts\<close>

text \<open>
  Line 331-347, \<^verbatim>\<open>parse_count\<close>: \<open>Inr None\<close> is Python's \<^verbatim>\<open>None\<close>; only \<^verbatim>\<open>ValueError\<close> is caught.
\<close>

definition catch_value_error :: "py_exception + int \<Rightarrow> py_exception + int option" where
  "catch_value_error r =
     (case r of Inr v \<Rightarrow> Inr (Some v) | Inl ValueError \<Rightarrow> Inr None | Inl e \<Rightarrow> Inl e)"

definition count_of_token :: "string \<Rightarrow> py_exception + int" where
  "count_of_token tok =
     (if CHR ''k'' \<in> set tok
      then (case py_float (filter (\<lambda>c. c \<noteq> CHR ''k'') tok) of
              Inl e \<Rightarrow> Inl e
            | Inr x \<Rightarrow> py_int_of_float (float_mul_int x 1000))
      else py_int tok)"

definition parse_count :: "string \<Rightarrow> string \<Rightarrow> py_exception + int option" where
  "parse_count txt label =
     (let lowered = py_lower txt
      in if py_in label lowered
         then (let parts = py_split (before_first label lowered)
               in if parts = [] then Inr None
                  else catch_value_error (count_of_token (last parts)))
         else Inr None)"

definition or_zero :: "int option \<Rightarrow> int" where
  "or_zero r = (case r of None \<Rightarrow> 0 | Some v \<Rightarrow> v)"

definition extract_engagement :: "node \<Rightarrow> py_exception + int \<times> int \<times> int" where
  "extract_engagement d =
     (let txt = get_text '' '' d
      in case parse_count txt ''reactions'' of
           Inl e \<Rightarrow> Inl e
         | Inr rc \<Rightarrow>
             (case parse_count txt ''comments'' of
                Inl e \<Rightarrow> Inl e
              | Inr cc \<Rightarrow>
                  (case parse_count txt ''shares'' of
                     Inl e \<Rightarrow> Inl e
                   | Inr sc \<Rightarrow> Inr (or_zero rc, or_zero cc, or_zero sc))))"

subsection \<open>Creation time\<close>

text \<open>
  Line 368-379. Python's \<^verbatim>\<open>a or b\<close> on optional strings, and the attribute values of one
  element that are handed to the normalizer, in order. The normalizer is called once per
  value; the call numbered \<open>i\<close> within one container reads the clock as \<open>clock i\<close>.
\<close>

definition truthy :: "string option \<Rightarrow> bool" where
  "truthy r = (case r of None \<Rightarrow> False | Some s \<Rightarrow> s \<noteq> [])"

definition py_or :: "string option \<Rightarrow> string option \<Rightarrow> string option" where
  "py_or a b = (if truthy a then a else b)"

definition element_candidates :: "node \<Rightarrow> string list" where
  "element_candidates el =
     concat (map (\<lambda>r. case r of None \<Rightarrow> [] | Some s \<Rightarrow> if s = [] then [] else [s])
       [py_or (get_attr el ''data-utime'') (get_attr el ''data-tooltip-content''),
        get_attr el ''datetime'',
        get_attr el ''title''])"

definition timestamp_candidates :: "node \<Rightarrow> string list" where
  "timestamp_candidates d = concat (map element_candidates (find_all [''abbr'', ''span'', ''a''] d))"

fun first_resolved :: "(nat \<Rightarrow> int) \<Rightarrow> dateutil \<Rightarrow> nat \<Rightarrow> string list \<Rightarrow> normalized" where
  "first_resolved clock dateutil_parse i [] = Inr None"
| "first_resolved clock dateutil_parse i (raw # raws) =
     (case parse_facebook_datetime (clock i) dateutil_parse (Some raw) of
        Inl e \<Rightarrow> Inl e
      | Inr None \<Rightarrow> first_resolved clock dateutil_parse (Suc i) raws
      | Inr (Some ts) \<Rightarrow>
          if ts = 0 then first_resolved clock dateutil_parse (Suc i) raws else Inr (Some ts))"

definition resolved :: "int option \<Rightarrow> bool" where
  "resolved r = (case r of None \<Rightarrow> False | Some ts \<Rightarrow> ts \<noteq> 0)"

definition extract_created_at :: "(nat \<Rightarrow> int) \<Rightarrow> dateutil \<Rightarrow> node \<Rightarrow> py_exception + int" where
  "extract_created_at clock dateutil_parse d =
     (let raws = timestamp_candidates d
      in case first_resolved clock dateutil_parse 0 raws of
           Inl e \<Rightarrow> Inl e
         | Inr (Some ts) \<Rightarrow> Inr ts
         | Inr None \<Rightarrow>
             (case parse_facebook_datetime (clock (length raws)) dateutil_parse
                     (Some (get_text '' '' d)) of
                Inl e \<Rightarrow> Inl e
              | Inr r \<Rightarrow>
                  if resolved r then Inr (or_zero r)
                  else (case parse_facebook_datetime (clock (Suc (length raws))) dateutil_parse
                               (Some ''now'') of
                          Inl e \<Rightarrow> Inl e
                        | Inr r' \<Rightarrow> Inr (or_zero r'))))"

subsection \<open>Top comments\<close>

text \<open>
  Line 406-432, one comment container. Line 436-437 falls back to
  \<^verbatim>\<open>_extract_comments_from_json\<close>, which rests on \<^verbatim>\<open>json.loads\<close> and on dynamically typed
  data; every statement of it that can raise stands inside \<^verbatim>\<open>try ... except Exception\<close>,
  so it returns a list. It is the parameter \<open>json_comments\<close>, its comments of a type \<open>'j\<close>.
\<close>

record comment =
  comment_text :: string
  comment_createdAt :: int
  author_name :: string
  author_id :: string
  author_url :: string
  comment_reactionCount :: int
  comment_commentCount :: int

definition comment_container :: "node \<Rightarrow> bool" where
  "comment_container n =
     (case get_attr n ''aria-label'' of None \<Rightarrow> False | Some v \<Rightarrow> py_in ''Comment'' v)"

definition visible_comment :: "int \<Rightarrow> dateutil \<Rightarrow> node \<Rightarrow> py_exception + comment" where
  "visible_comment now_us dateutil_parse cdiv =
     (let (name, url) =
            (case find_all_href cdiv of
               [] \<Rightarrow> ([], [])
             | a # rest \<Rightarrow>
                 if py_strip (node_text a) = [] then ([], [])
                 else (py_strip (node_text a), normalize_url (href a)));
          comment_txt = get_text '' '' cdiv
      in case parse_facebook_datetime now_us dateutil_parse (Some comment_txt) of
           Inl e \<Rightarrow> Inl e
         | Inr r \<Rightarrow>
             Inr \<lparr>comment_text = comment_txt, comment_createdAt = or_zero r,
                  author_name = name, author_id = [], author_url = url,
                  comment_reactionCount = 0, comment_commentCount = 0\<rparr>)"

fun visible_comments :: "(nat \<Rightarrow> int) \<Rightarrow> dateutil \<Rightarrow> nat \<Rightarrow> node list \<Rightarrow> comment list" where
  "visible_comments clock dateutil_parse i [] = []"
| "visible_comments clock dateutil_parse i (cdiv # cdivs) =
     (case visible_comment (clock i) dateutil_parse cdiv of
        Inl e \<Rightarrow> visible_comments clock dateutil_parse (Suc i) cdivs
      | Inr c \<Rightarrow> c # visible_comments clock dateutil_parse (Suc i) cdivs)"

definition extract_top_comments ::
  "(nat \<Rightarrow> int) \<Rightarrow> dateutil \<Rightarrow> (node \<Rightarrow> 'j list) \<Rightarrow> node \<Rightarrow> (comment + 'j) list" where
  "extract_top_comments clock dateutil_parse json_comments d =
     (let comments =
            visible_comments clock dateutil_parse 0 (filter comment_container (find_all [''div''] d))
      in if comments = [] then map Inr (json_comments d) else map Inl comments)"

subsection \<open>One post, and the posts of a page\<close>

record 'j post =
  createdAt :: int
  post_url :: string
  post_user :: user
  post_text :: string
  attachments :: "attachment list"
  reactionCount :: int
  shareCount :: int
  commentCount :: int
  topComments :: "(comment + 'j) list"

text \<open>
  \<open>created_clock\<close> and \<open>comment_clock\<close> give the clock readings of the normalizer calls made
  for the creation time and for the comments of the container.
\<close>

definition parse_single_post ::
  "(nat \<Rightarrow> int) \<Rightarrow> (nat \<Rightarrow> int) \<Rightarrow> dateutil \<Rightarrow> (node \<Rightarrow> 'j list) \<Rightarrow> node \<Rightarrow> string
     \<Rightarrow> py_exception + 'j post" where
  "parse_single_post created_clock comment_clock dateutil_parse json_comments d group_url =
     (let url = extract_post_url d group_url;
          usr = extract_user d;
          txt = extract_post_text d;
          atts = extract_attachments d
      in case extract_engagement d of
           Inl e \<Rightarrow> Inl e
         | Inr (reaction_count, comment_count, share_count) \<Rightarrow>
             (case extract_created_at created_clock dateutil_parse d of
                Inl e \<Rightarrow> Inl e
              | Inr created_at \<Rightarrow>
                  Inr \<lparr>createdAt = created_at, post_url = url, post_user = usr,
                       post_text = txt, attachments = atts,
                       reactionCount = reaction_count, shareCount = share_count,
                       commentCount = comment_count,
                       topComments =
                         extract_top_comments comment_clock dateutil_parse json_comments d\<rparr>))"

text \<open>\<^verbatim>\<open>to_dict\<close> copies the nine fields into a dict with the same keys.\<close>

definition to_dict :: "'j post \<Rightarrow> 'j post" where
  "to_dict p = p"

text \<open>Line 147-150: the containers of a page.\<close>

definition article_div :: "node \<Rightarrow> bool" where
  "article_div n = (get_attr n ''role'' = Some ''article'')"

definition legacy_container :: "node \<Rightarrow> bool" where
  "legacy_container n =
     (has_attr n ''aria-posinset''
      \<or> (case get_attr n ''class'' of
            None \<Rightarrow> False
          | Some v \<Rightarrow> ''story_body_container'' \<in> set (py_split v)))"

definition find_containers :: "node \<Rightarrow> node list" where
  "find_containers soup =
     (let article_divs = filter article_div (find_all [''div''] soup)
      in if article_divs = [] then filter legacy_container (find_all [''div''] soup)
         else article_divs)"

text \<open>
  Line 152-161: the loop over the containers. \<^verbatim>\<open>except Exception\<close> catches every exception
  of the model; the container is then left out. The clocks are indexed by the container.
\<close>

fun posts_loop ::
  "(nat \<Rightarrow> nat \<Rightarrow> int) \<Rightarrow> (nat \<Rightarrow> nat \<Rightarrow> int) \<Rightarrow> dateutil \<Rightarrow> (node \<Rightarrow> 'j list) \<Rightarrow> string
     \<Rightarrow> 'j post list \<Rightarrow> nat \<Rightarrow> node list \<Rightarrow> 'j post list" where
  "posts_loop created_clock comment_clock dateutil_parse json_comments group_url posts idx [] =
     posts"
| "posts_loop created_clock comment_clock dateutil_parse json_comments group_url posts idx
     (d # ds) =
     (case parse_single_post (created_clock idx) (comment_clock idx) dateutil_parse
             json_comments d group_url of
        Inl e \<Rightarrow>
          posts_loop created_clock comment_clock dateutil_parse json_comments group_url
            posts (Suc idx) ds
      | Inr p \<Rightarrow>
          posts_loop created_clock comment_clock dateutil_parse json_comments group_url
            (posts @ [to_dict p]) (Suc idx) ds)"

definition parse_posts_from_html ::
  "(nat \<Rightarrow> nat \<Rightarrow> int) \<Rightarrow> (nat \<Rightarrow> nat \<Rightarrow> int) \<Rightarrow> dateutil \<Rightarrow> (node \<Rightarrow> 'j list) \<Rightarrow> node
     \<Rightarrow> string \<Rightarrow> py_exception + 'j post list" where
  "parse_posts_from_html created_clock comment_clock dateutil_parse json_comments soup group_url =
     Inr (posts_loop created_clock comment_clock dateutil_parse json_comments group_url
            [] 0 (find_containers soup))"

subsection \<open>The token before a label\<close>


section \<open>Facts about strings\<close>

lemma is_digit_not_space: "is_digit c \<Longrightarrow> \<not> is_space c"
  by (auto simp: is_digit_def is_space_def)

lemma is_digit_lower: "is_digit c \<Longrightarrow> py_lower_char c = c"
  by (auto simp: is_digit_def py_lower_char_def)

lemma py_strip_digits:
  assumes "\<forall>c \<in> set s. is_digit c"
  shows "py_strip s = s"
proof -
  have a: "dropWhile is_space s = s"
    using assms by (cases s) (auto dest: is_digit_not_space)
  have "\<forall>c \<in> set (rev s). is_digit c"
    using assms by simp
  then have b: "dropWhile is_space (rev s) = rev s"
    by (cases "rev s") (auto dest: is_digit_not_space)
  show ?thesis
    by (simp add: py_strip_def a b)
qed

lemma py_lower_digits: "\<forall>c \<in> set s. is_digit c \<Longrightarrow> py_lower s = s"
  by (simp add: py_lower_def map_idI is_digit_lower)

lemma digit_group_digits: "s \<noteq> [] \<Longrightarrow> \<forall>c \<in> set s. is_digit c \<Longrightarrow> digit_group s"
proof (induction s rule: digit_group.induct)
  case (3 c d rest)
  have "d \<noteq> CHR ''_''"
    using "3.prems" by (auto simp: is_digit_def)
  then show ?case
    using 3 by simp
qed simp_all

lemma split_sign_digits:
  assumes "s \<noteq> []" "\<forall>c \<in> set s. is_digit c"
  shows "split_sign s = (False, s)"
proof -
  obtain c b where s: "s = c # b"
    using assms(1) by (cases s) auto
  then have "is_digit c"
    using assms(2) by simp
  then have "c \<noteq> CHR ''-''" "c \<noteq> CHR ''+''"
    by (auto simp: is_digit_def)
  then show ?thesis
    by (simp add: split_sign_def s)
qed

lemma py_int_digits:
  assumes "s \<noteq> []" "\<forall>c \<in> set s. is_digit c" "length s \<le> int_max_str_digits"
  shows "py_int s = Inr (digits_value s)"
proof -
  have f: "filter is_digit s = s"
    using assms(2) by (simp add: filter_id_conv)
  show ?thesis
    using assms
    by (simp add: py_int_def py_strip_digits split_sign_digits digit_group_digits f)
qed

section \<open>The epoch-digits branch\<close>

text \<open>
  C4. A string of 9 to 12 decimal digits is resolved to its integer value when that value
  is at most 10000000000, and to the value divided by 1000 (integer division) otherwise.
\<close>

theorem parse_epoch_digits:
  assumes "\<forall>c \<in> set s. is_digit c" and "9 \<le> length s" and "length s \<le> 12"
  shows "parse_facebook_datetime now_us dateutil_parse (Some s) =
           Inr (Some (if digits_value s \<le> 10000000000 then digits_value s
                      else digits_value s div 1000))"
proof -
  have ne: "s \<noteq> []"
    using assms(2) by auto
  have low: "py_lower (py_strip s) = s"
    using assms(1) by (simp add: py_strip_digits py_lower_digits)
  have "\<not> is_digit (CHR ''n'')"
    by (simp add: is_digit_def)
  then have not_now: "s \<noteq> ''now''"
    using assms(1) by auto
  have "py_int s = Inr (digits_value s)"
    using ne assms by (intro py_int_digits) (simp_all add: int_max_str_digits_def)
  then have "epoch_digits_branch s =
      Some (Inr (Some (if digits_value s > 10000000000 then digits_value s div 1000
                       else digits_value s)))"
    using assms by (simp add: epoch_digits_branch_def list_all_iff)
  then show ?thesis
    using ne low not_now by (auto simp: parse_facebook_datetime_def)
qed

theorem parse_epoch_digits_witness:
  "parse_facebook_datetime 0 (\<lambda>r. Inl ValueError) (Some ''1715352299'') = Inr (Some 1715352299)
   \<and> parse_facebook_datetime 0 (\<lambda>r. Inl ValueError) (Some ''171535229912'') = Inr (Some 171535229)"
  using parse_epoch_digits [of "''1715352299''" 0 "\<lambda>r. Inl ValueError"]
    parse_epoch_digits [of "''171535229912''" 0 "\<lambda>r. Inl ValueError"]
  by (simp add: is_digit_def digits_value_def digit_val_def)

section \<open>The relative-time branch\<close>



lemma match_unit_Nil: "match_unit [] = None"
  by (simp add: match_unit_def rel_units_def)



text \<open>
  What \<open>rel_match_at\<close> returns is a match of the pattern: a non-empty run of digits, a run
  of whitespace and one of the unit spellings, from the start position on.
\<close>

lemma rel_match_at_sound:
  assumes "rel_match_at s = Some (ds, u)"
  shows "\<exists>sp rest. s = ds @ sp @ u @ rest \<and> ds \<noteq> [] \<and> (\<forall>c \<in> set ds. is_digit c)
           \<and> (\<forall>c \<in> set sp. is_space c) \<and> u \<in> set rel_units"
proof -
  define r where "r = dropWhile is_space (dropWhile is_digit s)"
  have ds: "ds = takeWhile is_digit s" "ds \<noteq> []" and mu: "match_unit r = Some u"
    using assms by (auto simp: rel_match_at_def Let_def r_def split: if_splits)
  have u: "u \<in> set rel_units" "prefix u r"
    using mu by (auto simp: match_unit_def find_Some_iff)
  then obtain rest where rest: "r = u @ rest"
    by (auto simp: prefix_def)
  have "s = ds @ takeWhile is_space (dropWhile is_digit s) @ u @ rest"
    using ds(1) rest r_def
    by (metis takeWhile_dropWhile_id)
  moreover have "\<forall>c \<in> set ds. is_digit c"
    using ds(1) by (auto dest: set_takeWhileD)
  moreover have "\<forall>c \<in> set (takeWhile is_space (dropWhile is_digit s)). is_space c"
    by (auto dest: set_takeWhileD)
  ultimately show ?thesis
    using ds(2) u(1) by blast
qed

















section \<open>The relative branch raises\<close>

text \<open>
  C1. The claim is that the normalizer never raises. The relative branch (lines 41-59) has
  no handler: for \<^verbatim>\<open>"5551234567 d"\<close> the call \<^verbatim>\<open>timedelta(days=5551234567)\<close> raises
  \<^verbatim>\<open>OverflowError\<close>, which leaves the function, whatever the clock and the date library do.
\<close>

theorem parse_facebook_datetime_raises:
  "parse_facebook_datetime now_us dateutil_parse (Some ''5551234567 d'') = Inl OverflowError"
  by (simp add: parse_facebook_datetime_def py_strip_def py_lower_def py_lower_char_def
      is_space_def epoch_digits_branch_def is_digit_def relative_branch_def rel_match_at_def
      match_unit_def rel_units_def py_int_def split_sign_def int_max_str_digits_def
      digits_value_def digit_val_def unit_seconds_def timedelta_def)

section \<open>Attachments\<close>

lemma dedup_loop_acc: "dedup_loop seen unique atts = unique @ dedup_loop seen [] atts"
proof (induction atts arbitrary: seen unique)
  case Nil
  then show ?case by simp
next
  case (Cons a atts)
  show ?case
  proof (cases "att_key a \<in> seen")
    case True
    then show ?thesis
      using Cons.IH [of seen unique] Cons.IH [of seen "[]"] by simp
  next
    case False
    then show ?thesis
      using Cons.IH [of "insert (att_key a) seen" "unique @ [a]"]
        Cons.IH [of "insert (att_key a) seen" "[a]"] by simp
  qed
qed

lemma dedup_loop_Cons:
  "dedup_loop seen [] (a # atts) =
     (if att_key a \<in> seen then dedup_loop seen [] atts
      else a # dedup_loop (insert (att_key a) seen) [] atts)"
  using dedup_loop_acc [of "insert (att_key a) seen" "[a]" atts] by simp

declare dedup_loop.simps(2) [simp del]

lemma dedup_loop_set: "set (dedup_loop seen [] atts) \<subseteq> set atts"
  by (induction atts arbitrary: seen) (auto simp: dedup_loop_Cons)

lemma dedup_loop_keys:
  "att_key ` set (dedup_loop seen [] atts) = att_key ` set atts - seen"
  by (induction atts arbitrary: seen) (auto simp: dedup_loop_Cons)

lemma dedup_loop_distinct: "distinct (map att_key (dedup_loop seen [] atts))"
proof (induction atts arbitrary: seen)
  case Nil
  then show ?case by simp
next
  case (Cons a atts)
  have "att_key a \<notin> att_key ` set (dedup_loop (insert (att_key a) seen) [] atts)"
    by (simp add: dedup_loop_keys)
  then show ?case
    using Cons.IH by (simp add: dedup_loop_Cons)
qed

lemma dedup_loop_subseq: "subseq (dedup_loop seen [] atts) atts"
  by (induction atts arbitrary: seen) (auto simp: dedup_loop_Cons intro: subseq_Cons')

lemma dedup_loop_first:
  "a \<in> set (dedup_loop seen [] atts) \<Longrightarrow> find (\<lambda>b. att_key b = att_key a) atts = Some a"
proof (induction atts arbitrary: seen)
  case Nil
  then show ?case by simp
next
  case (Cons x atts)
  show ?case
  proof (cases "att_key x \<in> seen")
    case True
    then have mem: "a \<in> set (dedup_loop seen [] atts)"
      using Cons.prems by (simp add: dedup_loop_Cons)
    then have "att_key a \<in> att_key ` set atts - seen"
      using dedup_loop_keys [of seen atts] by blast
    then have "att_key x \<noteq> att_key a"
      using True by auto
    then show ?thesis
      using Cons.IH [OF mem] by simp
  next
    case False
    show ?thesis
    proof (cases "a = x")
      case True
      then show ?thesis by simp
    next
      case ne: False
      then have mem: "a \<in> set (dedup_loop (insert (att_key x) seen) [] atts)"
        using Cons.prems False by (simp add: dedup_loop_Cons)
      then have "att_key a \<in> att_key ` set atts - insert (att_key x) seen"
        using dedup_loop_keys [of "insert (att_key x) seen" atts] by blast
      then have "att_key x \<noteq> att_key a"
        by auto
      then show ?thesis
        using Cons.IH [OF mem] by simp
    qed
  qed
qed

lemma dedup_loop_fixed:
  "distinct (map att_key ys) \<Longrightarrow> att_key ` set ys \<inter> seen = {} \<Longrightarrow> dedup_loop seen [] ys = ys"
proof (induction ys arbitrary: seen)
  case Nil
  then show ?case by simp
next
  case (Cons y ys)
  have "att_key ` set ys \<inter> insert (att_key y) seen = {}"
    using Cons.prems by auto
  then show ?case
    using Cons by (auto simp: dedup_loop_Cons)
qed

text \<open>
  C6. Deduplication on the key (type, url): the keys of the result are pairwise different
  and are the keys of the input; the result is a subsequence of the input (the order of
  first appearance is kept); every element kept is the first one of the input with its
  key; and deduplicating the result again changes nothing.
\<close>

theorem dedup_first_occurrence:
  "distinct (map att_key (dedup atts))
   \<and> subseq (dedup atts) atts
   \<and> (\<forall>a \<in> set (dedup atts). find (\<lambda>b. att_key b = att_key a) atts = Some a)
   \<and> att_key ` set (dedup atts) = att_key ` set atts
   \<and> dedup (dedup atts) = dedup atts"
proof -
  have "dedup (dedup atts) = dedup atts"
    unfolding dedup_def by (rule dedup_loop_fixed) (simp_all add: dedup_loop_distinct)
  then show ?thesis
    by (simp add: dedup_def dedup_loop_distinct dedup_loop_subseq dedup_loop_first
        dedup_loop_keys)
qed

lemma dedup_loop_append:
  "dedup_loop seen [] (xs @ ys) =
     dedup_loop seen [] xs @ dedup_loop (seen \<union> att_key ` set xs) [] ys"
proof (induction xs arbitrary: seen)
  case Nil
  then show ?case by simp
next
  case (Cons x xs)
  have "insert (att_key x) seen \<union> att_key ` set xs = seen \<union> att_key ` set (x # xs)"
    by auto
  moreover have "att_key x \<in> seen \<Longrightarrow> seen \<union> att_key ` set xs = seen \<union> att_key ` set (x # xs)"
    by auto
  ultimately show ?case
    using Cons.IH [of seen] Cons.IH [of "insert (att_key x) seen"]
    by (simp add: dedup_loop_Cons del: Un_insert_left Un_insert_right set_simps)
qed

lemma dedup_loop_disjoint:
  "\<forall>y \<in> set ys. att_key y \<notin> S \<Longrightarrow> dedup_loop (S \<union> T) [] ys = dedup_loop T [] ys"
proof (induction ys arbitrary: T)
  case Nil
  then show ?case by simp
next
  case (Cons y ys)
  have "insert (att_key y) (S \<union> T) = S \<union> insert (att_key y) T"
    by auto
  then show ?case
    using Cons.prems Cons.IH [of T] Cons.IH [of "insert (att_key y) T"]
    by (simp add: dedup_loop_Cons)
qed

lemma image_attachments_type: "a \<in> set (image_attachments d) \<Longrightarrow> att_type a = ''image''"
  by (auto simp: image_attachments_def image_of_def split: option.splits if_splits)

lemma link_attachments_type: "a \<in> set (link_attachments d) \<Longrightarrow> att_type a = ''link''"
  by (auto simp: link_attachments_def link_of_def Let_def split: if_splits)

lemma extract_attachments_split:
  "extract_attachments d = dedup (image_attachments d) @ dedup (link_attachments d)"
proof -
  have "\<forall>y \<in> set (link_attachments d). att_key y \<notin> att_key ` set (image_attachments d)"
    by (auto simp: att_key_def dest!: image_attachments_type link_attachments_type)
  then have "dedup_loop (att_key ` set (image_attachments d) \<union> {}) [] (link_attachments d)
      = dedup_loop {} [] (link_attachments d)"
    by (rule dedup_loop_disjoint)
  then show ?thesis
    by (simp add: extract_attachments_def dedup_def dedup_loop_append)
qed

text \<open>
  C10. In the attachments of a container every image stands before every link. The images
  are the deduplicated image attachments and the links the deduplicated link attachments,
  each a subsequence of the attachments collected in document order.
\<close>

theorem images_before_links:
  "(\<forall>i j. i < length (extract_attachments d) \<and> j < length (extract_attachments d)
        \<and> att_type (extract_attachments d ! i) = ''image''
        \<and> att_type (extract_attachments d ! j) = ''link'' \<longrightarrow> i < j)
   \<and> filter (\<lambda>a. att_type a = ''image'') (extract_attachments d) = dedup (image_attachments d)
   \<and> filter (\<lambda>a. att_type a = ''link'') (extract_attachments d) = dedup (link_attachments d)
   \<and> subseq (dedup (image_attachments d)) (image_attachments d)
   \<and> subseq (dedup (link_attachments d)) (link_attachments d)"
proof -
  define A where "A = dedup (image_attachments d)"
  define B where "B = dedup (link_attachments d)"
  have r: "extract_attachments d = A @ B"
    by (simp add: A_def B_def extract_attachments_split)
  have subA: "subseq A (image_attachments d)" and subB: "subseq B (link_attachments d)"
    by (simp_all add: A_def B_def dedup_def dedup_loop_subseq)
  have tA: "\<forall>a \<in> set A. att_type a = ''image''"
    using dedup_loop_set [of "{}" "image_attachments d"] image_attachments_type
    by (auto simp: A_def dedup_def)
  have tB: "\<forall>a \<in> set B. att_type a = ''link''"
    using dedup_loop_set [of "{}" "link_attachments d"] link_attachments_type
    by (auto simp: B_def dedup_def)
  have order: "i < j"
    if "i < length (A @ B)" "j < length (A @ B)"
      "att_type ((A @ B) ! i) = ''image''" "att_type ((A @ B) ! j) = ''link''" for i j
  proof -
    have "i < length A"
    proof (rule ccontr)
      assume "\<not> i < length A"
      then have "(A @ B) ! i \<in> set B"
        using that(1) by (simp add: nth_append)
      then show False
        using tB that(3) by auto
    qed
    moreover have "length A \<le> j"
    proof (rule ccontr)
      assume "\<not> length A \<le> j"
      then have "(A @ B) ! j \<in> set A"
        by (simp add: nth_append)
      then show False
        using tA that(4) by auto
    qed
    ultimately show ?thesis
      by simp
  qed
  have fA: "filter (\<lambda>a. att_type a = ''image'') (A @ B) = A"
    using tA tB by (auto simp: filter_id_conv filter_empty_conv)
  have fB: "filter (\<lambda>a. att_type a = ''link'') (A @ B) = B"
    using tA tB by (auto simp: filter_id_conv filter_empty_conv)
  show ?thesis
    unfolding r using order fA fB subA subB by (simp add: A_def [symmetric] B_def [symmetric])
qed


theorem dedup_first_occurrence_witness:
  "dedup [ImageAtt ''u'' ''a'', LinkAtt ''u'' ''t'', ImageAtt ''u'' ''b'', LinkAtt ''v'' [],
          LinkAtt ''u'' ''z'']
     = [ImageAtt ''u'' ''a'', LinkAtt ''u'' ''t'', LinkAtt ''v'' []]
   \<and> dedup (dedup [ImageAtt ''u'' ''a'', LinkAtt ''u'' ''t'', ImageAtt ''u'' ''b'', LinkAtt ''v'' [],
          LinkAtt ''u'' ''z''])
     = dedup [ImageAtt ''u'' ''a'', LinkAtt ''u'' ''t'', ImageAtt ''u'' ''b'', LinkAtt ''v'' [],
          LinkAtt ''u'' ''z'']"
  using dedup_first_occurrence [of "[ImageAtt ''u'' ''a'', LinkAtt ''u'' ''t'',
      ImageAtt ''u'' ''b'', LinkAtt ''v'' [], LinkAtt ''u'' ''z'']"]
  by (simp add: dedup_def dedup_loop.simps att_key_def)

theorem images_before_links_witness:
  "extract_attachments
     (Element ''div'' []
        [Element ''a'' [(''href'', ''/x/y'')] [Text '' hi ''],
         Element ''img'' [(''src'', ''u''), (''alt'', ''pic'')] [],
         Element ''a'' [(''href'', ''/x/y'')] [Text ''b''],
         Element ''img'' [(''src'', ''u'')] []])
   = [ImageAtt ''u'' ''pic'', LinkAtt ''https://www.facebook.com/x/y'' ''hi'']"
  using images_before_links [of "Element ''div'' []
        [Element ''a'' [(''href'', ''/x/y'')] [Text '' hi ''],
         Element ''img'' [(''src'', ''u''), (''alt'', ''pic'')] [],
         Element ''a'' [(''href'', ''/x/y'')] [Text ''b''],
         Element ''img'' [(''src'', ''u'')] []]"]
  by (simp add: extract_attachments_def image_attachments_def find_all_def is_tag_def
      get_attr_def image_of_def link_attachments_def find_all_href_def has_attr_def link_of_def
      href_def get_text_def strings_def py_strip_def is_space_def normalize_url_def
      py_lower_def py_lower_char_def dedup_def dedup_loop.simps att_key_def)

section \<open>Engagement counts\<close>

lemmas number_eval = round_double_def floor_log2_def bitlen.simps round_half_even_def Let_def
  parse_decimal_def split_at_def exponent_ok_def mantissa_ok_def is_digit_def exponent_value_def
  digits_value_def digit_val_def py_float_def py_strip_def split_sign_def py_lower_def
  py_lower_char_def is_space_def decimal_to_double_def float_mul_int_def py_int_of_float_def
  py_int_def int_max_str_digits_def count_of_token_def

lemma count_of_token_1_2k: "count_of_token ''1.2k'' = Inr 1200"
  by (simp add: number_eval)

lemma count_of_token_340: "count_of_token ''340'' = Inr 340"
  by (simp add: number_eval)

lemma count_of_token_5: "count_of_token ''5'' = Inr 5"
  by (simp add: number_eval)


text \<open>
  C7. A container whose visible text reads "1.2k reactions 340 comments 5 shares" yields
  the reaction count 1200, the comment count 340 and the share count 5 (the result of
  \<open>extract_engagement\<close> is ordered reactions, comments, shares).
\<close>

theorem engagement_example:
  assumes "get_text '' '' d = ''1.2k reactions 340 comments 5 shares''"
  shows "extract_engagement d = Inr (1200, 340, 5)"
proof -
  have "parse_count ''1.2k reactions 340 comments 5 shares'' ''reactions'' = Inr (Some 1200)"
    by (simp add: parse_count_def py_lower_def py_lower_char_def py_split_def is_space_def
        count_of_token_1_2k catch_value_error_def)
  moreover
  have "parse_count ''1.2k reactions 340 comments 5 shares'' ''comments'' = Inr (Some 340)"
    by (simp add: parse_count_def py_lower_def py_lower_char_def py_split_def is_space_def
        count_of_token_340 catch_value_error_def)
  moreover
  have "parse_count ''1.2k reactions 340 comments 5 shares'' ''shares'' = Inr (Some 5)"
    by (simp add: parse_count_def py_lower_def py_lower_char_def py_split_def is_space_def
        count_of_token_5 catch_value_error_def)
  ultimately show ?thesis
    using assms by (simp add: extract_engagement_def or_zero_def)
qed

theorem engagement_example_witness:
  "extract_engagement
     (Element ''div'' []
        [Element ''span'' [] [Text '' 1.2k reactions ''], Text ''340 comments'',
         Element ''span'' [] [Element ''b'' [] [Text ''5 shares '']]])
   = Inr (1200, 340, 5)"
proof -
  have "get_text '' ''
     (Element ''div'' []
        [Element ''span'' [] [Text '' 1.2k reactions ''], Text ''340 comments'',
         Element ''span'' [] [Element ''b'' [] [Text ''5 shares '']]])
     = ''1.2k reactions 340 comments 5 shares''"
    by (simp add: get_text_def strings_def py_strip_def is_space_def)
  then show ?thesis
    by (rule engagement_example)
qed












text \<open>
  \<^verbatim>\<open>parse_count\<close> catches \<^verbatim>\<open>ValueError\<close> only: a token that \<^verbatim>\<open>float\<close> reads as infinity makes
  \<^verbatim>\<open>int\<close> raise \<^verbatim>\<open>OverflowError\<close>, and the whole extraction raises.
\<close>

lemma extract_engagement_overflow:
  "extract_engagement (Element ''div'' [] [Text ''infk reactions 5 comments''])
     = Inl OverflowError"
proof -
  have "count_of_token ''infk'' = Inl OverflowError"
    by (simp add: number_eval)
  then show ?thesis
    by (simp add: extract_engagement_def get_text_def strings_def py_strip_def is_space_def
        parse_count_def py_lower_def py_lower_char_def py_split_def catch_value_error_def)
qed

section \<open>Creation time\<close>

lemmas normalizer_eval = parse_facebook_datetime_def py_strip_def py_lower_def py_lower_char_def
  is_space_def epoch_digits_branch_def is_digit_def relative_branch_def rel_match_at_def
  match_unit_def rel_units_def py_int_def split_sign_def int_max_str_digits_def
  digits_value_def digit_val_def unit_seconds_def timedelta_def datetime_sub_def
  dt_min_us_def dt_max_us_def timestamp_int_def dateutil_branch_def with_utc_def

lemmas document_eval = find_all_def is_tag_def get_attr_def has_attr_def find_all_href_def
  href_def strings_def get_text_def node_text_def timestamp_candidates_def
  element_candidates_def py_or_def truthy_def


lemma parse_now:
  "parse_facebook_datetime now_us dateutil_parse (Some ''now'') = Inr (Some (timestamp_int now_us))"
  by (simp add: parse_facebook_datetime_def py_strip_def py_lower_def py_lower_char_def
      is_space_def)


lemma first_resolved_nonzero:
  "first_resolved clock dateutil_parse i raws = Inr (Some ts) \<Longrightarrow> ts \<noteq> 0"
  by (induction raws arbitrary: i) (auto split: sum.splits option.splits if_splits)

lemma timestamp_int_pos: "1000000 \<le> x \<Longrightarrow> 0 < timestamp_int x"
  by (simp add: timestamp_int_def pos_imp_zdiv_pos_iff)

text \<open>
  C9 (as amended). A value that the normalizer resolves to exactly 0 counts as unresolved:
  the scan goes on to the next candidate. When every clock reading is at least one second
  after the epoch, a creation time that is returned is never 0. It can be negative.
\<close>

theorem created_at_nonzero:
  "(parse_facebook_datetime (clock i) dateutil_parse (Some raw) = Inr (Some 0) \<longrightarrow>
      first_resolved clock dateutil_parse i (raw # raws)
        = first_resolved clock dateutil_parse (Suc i) raws)
   \<and> ((\<forall>k. 1000000 \<le> clock k) \<and> extract_created_at clock dateutil_parse d = Inr v \<longrightarrow> v \<noteq> 0)"
proof (intro conjI impI)
  assume "parse_facebook_datetime (clock i) dateutil_parse (Some raw) = Inr (Some 0)"
  then show "first_resolved clock dateutil_parse i (raw # raws)
      = first_resolved clock dateutil_parse (Suc i) raws"
    by simp
next
  assume a: "(\<forall>k. 1000000 \<le> clock k) \<and> extract_created_at clock dateutil_parse d = Inr v"
  define n where "n = length (timestamp_candidates d)"
  have now: "0 < timestamp_int (clock (Suc n))"
    using a by (simp add: timestamp_int_pos)
  show "v \<noteq> 0"
  proof (cases "first_resolved clock dateutil_parse 0 (timestamp_candidates d)")
    case (Inl e)
    then show ?thesis
      using a by (simp add: extract_created_at_def)
  next
    case (Inr r)
    show ?thesis
    proof (cases r)
      case (Some ts)
      then have "v = ts"
        using a Inr by (simp add: extract_created_at_def)
      then show ?thesis
        using Inr Some first_resolved_nonzero by blast
    next
      case None
      then show ?thesis
        using a Inr now
        by (auto simp: extract_created_at_def Let_def parse_now or_zero_def resolved_def
            n_def [symmetric] split: sum.splits option.splits if_splits)
    qed
  qed
qed


text \<open>
  The creation time is not always positive: a relative time that reaches back before 1970
  is truthy and is returned, here with the clock at 2026-11-03.
\<close>

theorem created_at_nonzero_counterexample:
  "(0 :: int) < 1793664000000000
   \<and> extract_created_at (\<lambda>i. 1793664000000000) (\<lambda>r. Inl ValueError)
       (Element ''div'' [] [Element ''abbr'' [(''title'', ''3000 w'')] []])
     = Inr (- 20736000)"
proof -
  define d where "d = Element ''div'' [] [Element ''abbr'' [(''title'', ''3000 w'')] []]"
  have tc: "timestamp_candidates d = [''3000 w'']"
    by (simp add: d_def document_eval)
  have p1: "parse_facebook_datetime 1793664000000000 (\<lambda>r. Inl ValueError) (Some ''3000 w'')
      = Inr (Some (- 20736000))"
    by (simp add: normalizer_eval)
  show ?thesis
    by (simp add: extract_created_at_def tc p1 d_def [symmetric])
qed

theorem created_at_nonzero_witness:
  "parse_facebook_datetime 1793664000000000
     (\<lambda>r. if r = ''1970-01-01T00:00:00Z'' then Inr (Aware 0) else Inl ValueError)
     (Some ''1970-01-01T00:00:00Z'') = Inr (Some 0)
   \<and> extract_created_at (\<lambda>i. 1793664000000000)
       (\<lambda>r. if r = ''1970-01-01T00:00:00Z'' then Inr (Aware 0) else Inl ValueError)
       (Element ''div'' [] [Element ''abbr'' [(''datetime'', ''1970-01-01T00:00:00Z'')] [],
          Text ''hi''])
     = Inr 1793664000"
proof -
  define d where "d = Element ''div'' []
    [Element ''abbr'' [(''datetime'', ''1970-01-01T00:00:00Z'')] [], Text ''hi'']"
  define dp :: dateutil where
    "dp = (\<lambda>r. if r = ''1970-01-01T00:00:00Z'' then Inr (Aware 0) else Inl ValueError)"
  have tc: "timestamp_candidates d = [''1970-01-01T00:00:00Z'']"
    by (simp add: d_def document_eval)
  have gt: "get_text '' '' d = ''hi''"
    by (simp add: d_def document_eval py_strip_def is_space_def)
  have low: "py_lower ''1970-01-01T00:00:00Z'' = ''1970-01-01t00:00:00z''"
    by code_simp
  have p1: "parse_facebook_datetime 1793664000000000 dp (Some ''1970-01-01T00:00:00Z'')
      = Inr (Some 0)"
    by (simp add: parse_facebook_datetime_def py_strip_def is_space_def low
        epoch_digits_branch_def is_digit_def relative_branch_def rel_match_at_def
        match_unit_def rel_units_def dateutil_branch_def dp_def with_utc_def timestamp_int_def)
  have p2: "parse_facebook_datetime 1793664000000000 dp (Some ''hi'') = Inr None"
    by (simp add: normalizer_eval dp_def)
  have e: "extract_created_at (\<lambda>i. 1793664000000000) dp d = Inr 1793664000"
    by (simp add: extract_created_at_def tc gt p1 p2 parse_now resolved_def or_zero_def
        timestamp_int_def)
  show ?thesis
    using created_at_nonzero [of "\<lambda>i. 1793664000000000" 0 dp "''1970-01-01T00:00:00Z''" "[]"
        d 1793664000] p1 e
    by (simp add: d_def dp_def)
qed



section \<open>The posts of a page\<close>

lemma posts_loop_acc:
  "posts_loop cc mc dp jc url posts idx ds = posts @ posts_loop cc mc dp jc url [] idx ds"
proof (induction ds arbitrary: posts idx)
  case Nil
  then show ?case by simp
next
  case (Cons d ds)
  show ?case
  proof (cases "parse_single_post (cc idx) (mc idx) dp jc d url")
    case (Inl e)
    then show ?thesis
      using Cons.IH [of posts "Suc idx"] by simp
  next
    case (Inr p)
    then show ?thesis
      using Cons.IH [of "posts @ [to_dict p]" "Suc idx"] Cons.IH [of "[to_dict p]" "Suc idx"]
      by simp
  qed
qed

lemma posts_loop_map_filter:
  "posts_loop cc mc dp jc url [] idx ds =
     List.map_filter
       (\<lambda>(k, d). case parse_single_post (cc k) (mc k) dp jc d url of
                    Inl e \<Rightarrow> None | Inr p \<Rightarrow> Some (to_dict p))
       (enumerate idx ds)"
proof (induction ds arbitrary: idx)
  case Nil
  then show ?case by (simp add: map_filter_simps)
next
  case (Cons d ds)
  show ?case
  proof (cases "parse_single_post (cc idx) (mc idx) dp jc d url")
    case (Inl e)
    then show ?thesis
      using Cons.IH [of "Suc idx"] by (simp add: map_filter_simps)
  next
    case (Inr p)
    then show ?thesis
      using Cons.IH [of "Suc idx"] posts_loop_acc [of cc mc dp jc url "[to_dict p]" "Suc idx" ds]
      by (simp add: map_filter_simps)
  qed
qed

text \<open>
  C2. \<^verbatim>\<open>parse_posts_from_html\<close> returns and never raises: its result is the list of the
  posts of the containers whose extraction returns, in the order of the containers; a
  container whose extraction raises is left out.
\<close>

theorem posts_skip_failures:
  "parse_posts_from_html created_clock comment_clock dateutil_parse json_comments soup group_url
     = Inr (List.map_filter
         (\<lambda>(k, d). case parse_single_post (created_clock k) (comment_clock k) dateutil_parse
                          json_comments d group_url of
                      Inl e \<Rightarrow> None | Inr p \<Rightarrow> Some (to_dict p))
         (enumerate 0 (find_containers soup)))"
  by (simp add: parse_posts_from_html_def posts_loop_map_filter)


lemmas post_eval = parse_single_post_def extract_post_url_def extract_user_def
  extract_post_text_def extract_attachments_def image_attachments_def link_attachments_def
  dedup_def extract_engagement_def parse_count_def extract_created_at_def
  extract_top_comments_def descendants.simps auto_dir_block_def comment_container_def
  derive_user_id_def author_anchor_def permalink_anchor_def or_zero_def resolved_def
  catch_value_error_def to_dict_def

theorem posts_skip_failures_witness:
  "map post_text
     (projr (parse_posts_from_html (\<lambda>k i. 1793664000000000) (\<lambda>k i. 1793664000000000)
        (\<lambda>r. Inl ValueError) (\<lambda>d. [] :: unit list)
        (Element ''[document]'' []
           [Element ''div'' [(''role'', ''article'')] [Text ''first''],
            Element ''div'' [(''role'', ''article'')]
              [Element ''abbr'' [(''title'', ''5551234567 d'')] [], Text ''second''],
            Element ''div'' [(''role'', ''article'')] [Text ''third'']])
        ''https://www.facebook.com/groups/g''))
   = [''first'', ''third'']"
proof -
  define c :: "nat \<Rightarrow> int" where "c = (\<lambda>i. 1793664000000000)"
  define dp :: dateutil where "dp = (\<lambda>r. Inl ValueError)"
  define jc :: "node \<Rightarrow> unit list" where "jc = (\<lambda>d. [])"
  define g where "g = ''https://www.facebook.com/groups/g''"
  define d1 where "d1 = Element ''div'' [(''role'', ''article'')] [Text ''first'']"
  define d2 where "d2 = Element ''div'' [(''role'', ''article'')]
      [Element ''abbr'' [(''title'', ''5551234567 d'')] [], Text ''second'']"
  define d3 where "d3 = Element ''div'' [(''role'', ''article'')] [Text ''third'']"
  have fc: "find_containers (Element ''[document]'' [] [d1, d2, d3]) = [d1, d2, d3]"
    by (simp add: find_containers_def article_div_def d1_def d2_def d3_def document_eval)
  have n1: "parse_facebook_datetime 1793664000000000 dp (Some ''first'') = Inr None"
    by (simp add: normalizer_eval dp_def)
  have n2: "parse_facebook_datetime 1793664000000000 dp (Some ''5551234567 d'')
      = Inl OverflowError"
    by (simp add: normalizer_eval dp_def)
  have n3: "parse_facebook_datetime 1793664000000000 dp (Some ''third'') = Inr None"
    by (simp add: normalizer_eval dp_def)
  have p1: "map_sum id post_text (parse_single_post c c dp jc d1 g) = Inr ''first''"
    by (simp add: post_eval document_eval d1_def c_def n1 parse_now py_strip_def is_space_def
        py_lower_def py_lower_char_def)
  have p2: "parse_single_post c c dp jc d2 g = Inl OverflowError"
    by (simp add: post_eval document_eval d2_def c_def n2 py_strip_def is_space_def
        py_lower_def py_lower_char_def)
  have p3: "map_sum id post_text (parse_single_post c c dp jc d3 g) = Inr ''third''"
    by (simp add: post_eval document_eval d3_def c_def n3 parse_now py_strip_def is_space_def
        py_lower_def py_lower_char_def)
  obtain q1 where q1: "parse_single_post c c dp jc d1 g = Inr q1" "post_text q1 = ''first''"
    using p1 by (cases "parse_single_post c c dp jc d1 g") auto
  obtain q3 where q3: "parse_single_post c c dp jc d3 g = Inr q3" "post_text q3 = ''third''"
    using p3 by (cases "parse_single_post c c dp jc d3 g") auto
  have "parse_posts_from_html (\<lambda>k. c) (\<lambda>k. c) dp jc (Element ''[document]'' [] [d1, d2, d3]) g
      = Inr [to_dict q1, to_dict q3]"
    using posts_skip_failures [of "\<lambda>k. c" "\<lambda>k. c" dp jc "Element ''[document]'' [] [d1, d2, d3]" g]
    by (simp add: fc map_filter_simps q1 p2 q3)
  then show ?thesis
    by (simp add: q1 q3 to_dict_def c_def dp_def jc_def g_def d1_def d2_def d3_def)
qed

end
